theory Spec2Isabelle
  imports Main
begin

section \<open>Error taxonomy (internal/errors/errors.go, tabby/types.go)\<close>

text \<open>
  The struct \<open>APIError\<close> is also the target of a JSON decode in the REST client, so it
  is a record. \<open>Details\<close> is an \<open>interface{}\<close> in the source; the model keeps the raw
  JSON text of the value, \<open>None\<close> for nil.
\<close>

record APIError =
  StatusCode :: int
  Message :: string
  Details :: "string option"
  RequestID :: string

text \<open>
  Go's \<open>error\<close> values that occur in the modelled code. \<open>EOF\<close> is \<open>io.EOF\<close>,
  \<open>Canceled\<close> and \<open>DeadlineExceeded\<close> are the two values a context's \<open>Err()\<close> returns,
  \<open>Opaque\<close> is any other library error (an I/O failure, a JSON syntax error), kept by
  its message. \<open>RequestError\<close> has the fields Message, StatusCode, Err and
  \<open>StreamError\<close> the fields Message, Err, in the order of the source; a nil \<open>Err\<close> is
  \<open>None\<close>.
\<close>

datatype error =
    EOF
  | Canceled
  | DeadlineExceeded
  | Opaque string
  | API APIError
  | RequestError string int "error option"
  | StreamError string "error option"

text \<open>\<open>func (e *APIError) Code() string\<close>: a switch on the status code.\<close>

definition APIError_Code :: "APIError \<Rightarrow> string" where
  "APIError_Code e =
     (if APIError.StatusCode e = 400 then ''invalid_request''
      else if APIError.StatusCode e = 401 then ''authentication_error''
      else if APIError.StatusCode e = 403 then ''permission_error''
      else if APIError.StatusCode e = 404 then ''not_found''
      else if APIError.StatusCode e = 429 then ''rate_limit_exceeded''
      else if APIError.StatusCode e \<ge> 500 then ''server_error''
      else ''api_error'')"

definition APIError_HTTPStatusCode :: "APIError \<Rightarrow> int" where
  "APIError_HTTPStatusCode e = APIError.StatusCode e"

text \<open>The methods of \<open>*RequestError\<close> and \<open>*StreamError\<close>, defined on their receivers only.\<close>

fun RequestError_Code :: "error \<Rightarrow> string" where
  "RequestError_Code (RequestError msg sc err) = ''request_error''"

fun RequestError_HTTPStatusCode :: "error \<Rightarrow> int" where
  "RequestError_HTTPStatusCode (RequestError msg sc err) = (if sc \<noteq> 0 then sc else 500)"

fun RequestError_Unwrap :: "error \<Rightarrow> error option" where
  "RequestError_Unwrap (RequestError msg sc err) = err"

fun StreamError_Code :: "error \<Rightarrow> string" where
  "StreamError_Code (StreamError msg err) = ''stream_error''"

fun StreamError_HTTPStatusCode :: "error \<Rightarrow> int" where
  "StreamError_HTTPStatusCode (StreamError msg err) = 500"

fun StreamError_Unwrap :: "error \<Rightarrow> error option" where
  "StreamError_Unwrap (StreamError msg err) = err"

text \<open>
  The predefined error values. A field the composite literal leaves out has Go's zero
  value: status code 0, nil \<open>Err\<close>, empty strings.
\<close>

definition ErrInvalidRequest :: error where
  "ErrInvalidRequest = RequestError ''invalid request parameters'' 400 None"

definition ErrAuthentication :: error where
  "ErrAuthentication =
     API \<lparr>APIError.StatusCode = 401, Message = ''authentication failed'', Details = None, RequestID = ''''\<rparr>"

definition ErrPermission :: error where
  "ErrPermission =
     API \<lparr>APIError.StatusCode = 403, Message = ''permission denied'', Details = None, RequestID = ''''\<rparr>"

definition ErrNotFound :: error where
  "ErrNotFound =
     API \<lparr>APIError.StatusCode = 404, Message = ''resource not found'', Details = None, RequestID = ''''\<rparr>"

definition ErrServerError :: error where
  "ErrServerError =
     API \<lparr>APIError.StatusCode = 500, Message = ''server error'', Details = None, RequestID = ''''\<rparr>"

definition ErrTimeout :: error where
  "ErrTimeout = RequestError ''request timed out'' 504 None"

definition ErrCanceled :: error where
  "ErrCanceled = RequestError ''request canceled'' 0 None"

definition ErrStreamClosed :: error where
  "ErrStreamClosed = StreamError ''stream closed'' None"

text \<open>
  \<open>fmt.Sprintf\<close> with the verb \<open>%d\<close>: the decimal digits of an integer.
\<close>

fun show_nat :: "nat \<Rightarrow> string" where
  "show_nat n =
     (if n < 10 then [''0123456789'' ! n]
      else show_nat (n div 10) @ [''0123456789'' ! (n mod 10)])"

definition show_int :: "int \<Rightarrow> string" where
  "show_int i = (if i < 0 then CHR ''-'' # show_nat (nat (- i)) else show_nat (nat i))"

text \<open>
  The \<open>Error()\<close> methods, which \<open>%v\<close> prints. The library errors print their fixed
  messages.
\<close>

fun Error :: "error \<Rightarrow> string" where
  "Error EOF = ''EOF''"
| "Error Canceled = ''context canceled''"
| "Error DeadlineExceeded = ''context deadline exceeded''"
| "Error (Opaque msg) = msg"
| "Error (API e) =
     (if RequestID e \<noteq> [] then
        ''tabby API error (status '' @ show_int (APIError.StatusCode e) @ '', request ID: ''
          @ RequestID e @ ''): '' @ Message e
      else ''tabby API error (status '' @ show_int (APIError.StatusCode e) @ ''): '' @ Message e)"
| "Error (RequestError msg sc err) =
     (case err of
        Some e \<Rightarrow> ''request error: '' @ msg @ '': '' @ Error e
      | None \<Rightarrow> ''request error: '' @ msg)"
| "Error (StreamError msg err) =
     (case err of
        Some e \<Rightarrow> ''stream error: '' @ msg @ '': '' @ Error e
      | None \<Rightarrow> ''stream error: '' @ msg)"

section \<open>Library functions of package strings\<close>

text \<open>
  Go strings are byte sequences, here \<open>string\<close>. The separators and prefixes the
  source passes are single ASCII bytes or ASCII words, so the functions work bytewise.
\<close>

abbreviation NL :: char where
  "NL \<equiv> CHR 0x0A"

abbreviation CR :: char where
  "CR \<equiv> CHR 0x0D"

definition HasPrefix :: "string \<Rightarrow> string \<Rightarrow> bool" where
  "HasPrefix s pre = (take (length pre) s = pre)"

definition Contains :: "string \<Rightarrow> char \<Rightarrow> bool" where
  "Contains s c = (c \<in> set s)"

text \<open>
  \<open>strings.Split(s, sep)\<close> for a one-byte separator: the pieces between the
  separators, one more than there are separators (the empty string gives one empty
  piece).
\<close>

fun Split :: "string \<Rightarrow> char \<Rightarrow> string list" where
  "Split [] sep = [[]]"
| "Split (c # cs) sep =
     (if c = sep then [] # Split cs sep
      else (case Split cs sep of [] \<Rightarrow> [[c]] | p # ps \<Rightarrow> (c # p) # ps))"

text \<open>\<open>strings.SplitN(s, sep, 2)\<close>: cut at the first separator, if there is one.\<close>

definition SplitN2 :: "string \<Rightarrow> char \<Rightarrow> string list" where
  "SplitN2 s sep =
     (if sep \<in> set s
      then [takeWhile (\<lambda>c. c \<noteq> sep) s, tl (dropWhile (\<lambda>c. c \<noteq> sep) s)]
      else [s])"

text \<open>\<open>strings.TrimRight(s, cutset)\<close> for a cutset of ASCII bytes.\<close>

definition TrimRight :: "string \<Rightarrow> string \<Rightarrow> string" where
  "TrimRight s cutset = rev (dropWhile (\<lambda>c. c \<in> set cutset) (rev s))"

text \<open>
  \<open>strings.TrimSpace\<close> removes the leading and trailing runes for which
  \<open>unicode.IsSpace\<close> holds. On the bytes of the string these are the UTF-8 encodings
  below: the six ASCII spaces, U+0085, U+00A0, U+1680, U+2000 to U+200A, U+2028, U+2029,
  U+202F, U+205F and U+3000. A byte sequence that is not one of these encodings decodes
  to another rune (or to the replacement rune of width one) and stops the trimming.
\<close>

definition space_encodings :: "string list" where
  "space_encodings =
     [[CHR 0x09], [CHR 0x0A], [CHR 0x0B], [CHR 0x0C], [CHR 0x0D], [CHR 0x20],
      [CHR 0xC2, CHR 0x85], [CHR 0xC2, CHR 0xA0],
      [CHR 0xE1, CHR 0x9A, CHR 0x80],
      [CHR 0xE2, CHR 0x80, CHR 0x80], [CHR 0xE2, CHR 0x80, CHR 0x81],
      [CHR 0xE2, CHR 0x80, CHR 0x82], [CHR 0xE2, CHR 0x80, CHR 0x83],
      [CHR 0xE2, CHR 0x80, CHR 0x84], [CHR 0xE2, CHR 0x80, CHR 0x85],
      [CHR 0xE2, CHR 0x80, CHR 0x86], [CHR 0xE2, CHR 0x80, CHR 0x87],
      [CHR 0xE2, CHR 0x80, CHR 0x88], [CHR 0xE2, CHR 0x80, CHR 0x89],
      [CHR 0xE2, CHR 0x80, CHR 0x8A],
      [CHR 0xE2, CHR 0x80, CHR 0xA8], [CHR 0xE2, CHR 0x80, CHR 0xA9],
      [CHR 0xE2, CHR 0x80, CHR 0xAF],
      [CHR 0xE2, CHR 0x81, CHR 0x9F],
      [CHR 0xE3, CHR 0x80, CHR 0x80]]"

text \<open>
  The length of the space rune a string starts with, 0 when it starts with none; no
  encoding is a prefix of another, so at most one matches.
\<close>

definition leading_space :: "string list \<Rightarrow> string \<Rightarrow> nat" where
  "leading_space encs s =
     (case filter (\<lambda>w. take (length w) s = w) encs of [] \<Rightarrow> 0 | w # _ \<Rightarrow> length w)"

fun trim_left :: "string list \<Rightarrow> string \<Rightarrow> string" where
  "trim_left encs [] = []"
| "trim_left encs (c # cs) =
     (if leading_space encs (c # cs) = 0 then c # cs
      else trim_left encs (drop (leading_space encs (c # cs) - 1) cs))"

definition TrimSpace :: "string \<Rightarrow> string" where
  "TrimSpace s =
     rev (trim_left (map rev space_encodings) (rev (trim_left space_encodings s)))"

section \<open>Parsing one event (internal/stream, tabby: \<open>parseEvent\<close>)\<close>

text \<open>The struct \<open>sseEvent\<close>; its field \<open>id\<close> is \<open>id_field\<close> here.\<close>

record sseEvent =
  id_field :: string
  event :: string
  data :: string

text \<open>
  The body of the loop of \<open>parseEvent\<close>, on one piece of the split text. A slice
  \<open>line[3:]\<close> is \<open>drop 3 line\<close>; the prefix test before it makes the index valid.
\<close>

definition parseLine :: "sseEvent \<Rightarrow> string \<Rightarrow> sseEvent" where
  "parseLine ev raw =
     (let line = TrimRight raw [CR] in
      if line = [] then ev
      else if HasPrefix line ''id:'' then ev\<lparr>id_field := TrimSpace (drop 3 line)\<rparr>
      else if HasPrefix line ''event:'' then ev\<lparr>event := TrimSpace (drop 6 line)\<rparr>
      else if HasPrefix line ''data:'' then
        ev\<lparr>data := (if data ev \<noteq> [] then data ev @ [NL] else data ev)
                      @ TrimSpace (drop 5 line)\<rparr>
      else if HasPrefix line '':'' then ev
      else if Contains line (CHR '':'') then
        (let parts = SplitN2 line (CHR '':'') in
         if length parts = 2 then
           (let field = TrimSpace (parts ! 0); val = TrimSpace (parts ! 1) in
            if field = ''id'' then ev\<lparr>id_field := val\<rparr>
            else if field = ''event'' then ev\<lparr>event := val\<rparr>
            else if field = ''data'' then
              ev\<lparr>data := (if data ev \<noteq> [] then data ev @ [NL] else data ev) @ val\<rparr>
            else ev)
         else ev)
      else ev)"

text \<open>
  \<open>parseEvent\<close> returns a nil error on every path, so the model returns the event
  alone.
\<close>

definition parseEvent :: "string \<Rightarrow> sseEvent" where
  "parseEvent eventStr =
     (let ev = foldl parseLine \<lparr>id_field = [], event = [], data = []\<rparr> (Split eventStr NL)
      in if event ev = [] then ev\<lparr>event := ''message''\<rparr> else ev)"

section \<open>The response body and the stream (internal/stream, tabby: \<open>Stream\<close>)\<close>

text \<open>
  A response body is a byte stream read once: \<open>unread\<close> are the bytes it has not yet
  delivered and \<open>at_end\<close> is the error its \<open>Read\<close> returns when they are used up,
  \<open>EOF\<close> for a body that ends normally. \<open>close_result\<close> is what its \<open>Close()\<close>
  returns and \<open>released\<close> records that \<open>Close()\<close> was called. No modelled path reads
  a body after closing it.
\<close>

record Body =
  unread :: string
  at_end :: error
  close_result :: "error option"
  released :: bool

text \<open>
  The fields of \<open>http.Response\<close> the code reads. The \<open>net/http\<close> client always sets a
  non-nil body, so \<open>Body\<close> is not optional.
\<close>

record Response =
  StatusCode :: int
  Body :: Body

text \<open>\<open>io.ReadAll\<close>: all the bytes, and the read error if it is not \<open>io.EOF\<close>.\<close>

definition ReadAll :: "Body \<Rightarrow> (string \<times> error option) \<times> Body" where
  "ReadAll b =
     ((unread b, if at_end b = EOF then None else Some (at_end b)), b\<lparr>unread := []\<rparr>)"

text \<open>
  \<open>bufio.Reader.ReadString(delim)\<close>: the bytes up to and including the first
  delimiter; if the input ends before a delimiter, the bytes read so far and the error.
  The reader's buffer is not observable, so the reader and its body are one cursor.
\<close>

definition ReadString :: "Body \<Rightarrow> char \<Rightarrow> (string \<times> error option) \<times> Body" where
  "ReadString b delim =
     (if delim \<in> set (unread b)
      then ((takeWhile (\<lambda>c. c \<noteq> delim) (unread b) @ [delim], None),
            b\<lparr>unread := tl (dropWhile (\<lambda>c. c \<noteq> delim) (unread b))\<rparr>)
      else ((unread b, Some (at_end b)), b\<lparr>unread := []\<rparr>))"

definition Body_Close :: "Body \<Rightarrow> error option \<times> Body" where
  "Body_Close b = (close_result b, b\<lparr>released := True\<rparr>)"

text \<open>
  The struct \<open>Stream[T]\<close>. \<open>ctx\<close> is the state of the stream's own context, the one
  \<open>context.WithCancel\<close> derives in \<open>New\<close>: \<open>None\<close> while it is live, otherwise the
  error its \<open>Err()\<close> returns. The field \<open>reader\<close> is the cursor on the body of
  \<open>response\<close>. The mutex \<open>mu\<close> makes \<open>Recv\<close> and \<open>Close\<close> atomic, as the functions
  of the model are.
\<close>

record Stream =
  ctx :: "error option"
  response :: Response
  closed :: bool

text \<open>
  \<open>New\<close>: a context derived from a parent that is already done is done with the
  parent's error.
\<close>

definition New :: "error option \<Rightarrow> Response \<Rightarrow> Stream" where
  "New parent resp = \<lparr>ctx = parent, response = resp, closed = False\<rparr>"

text \<open>\<open>s.cancel()\<close>: the first cancellation of a context decides its error.\<close>

definition cancel :: "error option \<Rightarrow> error option" where
  "cancel c = (case c of None \<Rightarrow> Some Canceled | Some e \<Rightarrow> Some e)"

lemma ReadString_shorter:
  "snd (fst (ReadString b delim)) = None \<Longrightarrow>
   length (unread (snd (ReadString b delim))) < length (unread b)"
proof -
  assume "snd (fst (ReadString b delim)) = None"
  then have mem: "delim \<in> set (unread b)"
    by (auto simp: ReadString_def split: if_splits)
  then have "dropWhile (\<lambda>c. c \<noteq> delim) (unread b) \<noteq> []"
    by simp
  then have "length (tl (dropWhile (\<lambda>c. c \<noteq> delim) (unread b)))
      < length (dropWhile (\<lambda>c. c \<noteq> delim) (unread b))"
    by (cases "dropWhile (\<lambda>c. c \<noteq> delim) (unread b)") auto
  also have "\<dots> \<le> length (unread b)"
    by (rule length_dropWhile_le)
  finally show ?thesis
    using mem by (simp add: ReadString_def)
qed

text \<open>
  The loop of \<open>readEvent\<close>, with the accumulation buffer as its second argument. Every
  line that is read without an error takes at least its delimiter from the body, so the
  loop ends.
\<close>

function readEvent_loop :: "Body \<Rightarrow> string \<Rightarrow> (error + sseEvent) \<times> Body" where
  "readEvent_loop b buffer =
     (let r = ReadString b NL; line = fst (fst r); err = snd (fst r); b' = snd r in
      if err \<noteq> None then
        (if err = Some EOF then
           (if length buffer > 0 then (Inr (parseEvent buffer), b') else (Inl EOF, b'))
         else (Inl (StreamError ''error reading from stream'' err), b'))
      else if line = [NL] \<or> line = [CR, NL] then
        (if length buffer > 0 then (Inr (parseEvent buffer), b')
         else readEvent_loop b' buffer)
      else readEvent_loop b' (buffer @ line))"
  by pat_completeness auto
termination
  by (relation "measure (\<lambda>(b, buffer). length (unread b))")
     (auto simp: ReadString_shorter)

declare readEvent_loop.simps [simp del]

definition readEvent :: "Stream \<Rightarrow> (error + sseEvent) \<times> Stream" where
  "readEvent s =
     (let (r, b) = readEvent_loop (Body (response s)) []
      in (r, s\<lparr>response := (response s)\<lparr>Body := b\<rparr>\<rparr>))"

text \<open>
  \<open>Recv\<close>. The parameter \<open>unmarshal\<close> is \<open>json.Unmarshal\<close> into a fresh zero value of
  the stream's type \<open>T\<close>: the decoded item, or the decoder's error. An error result
  stands for the pair of the zero value and the error that the source returns.
\<close>

definition Recv :: "(string \<Rightarrow> error + 'a) \<Rightarrow> Stream \<Rightarrow> (error + 'a) \<times> Stream" where
  "Recv unmarshal s =
     (if closed s then (Inl ErrStreamClosed, s)
      else case ctx s of
        Some e \<Rightarrow> (Inl e, s)
      | None \<Rightarrow>
          (case readEvent s of
             (Inl err, s') \<Rightarrow> (Inl err, s')
           | (Inr ev, s') \<Rightarrow>
               (case unmarshal (data ev) of
                  Inl err \<Rightarrow> (Inl (StreamError ''failed to unmarshal event data'' (Some err)), s')
                | Inr item \<Rightarrow> (Inr item, s'))))"

definition Close :: "Stream \<Rightarrow> error option \<times> Stream" where
  "Close s =
     (if closed s then (None, s)
      else
        (let s1 = s\<lparr>closed := True, ctx := cancel (ctx s)\<rparr>;
             (r, b) = Body_Close (Body (response s1))
         in (r, s1\<lparr>response := (response s1)\<lparr>Body := b\<rparr>\<rparr>)))"

definition Done :: "Stream \<Rightarrow> bool" where
  "Done s = (ctx s \<noteq> None)"

definition IsClosed :: "Stream \<Rightarrow> bool" where
  "IsClosed s = closed s"

text \<open>
  \<open>ReadStream\<close>. On the error path the body is read to its end and closed; the read
  error is dropped, as in the source.
\<close>

definition ReadStream :: "error option \<Rightarrow> Response \<Rightarrow> (error + Stream) \<times> Response" where
  "ReadStream parent resp =
     (if Response.StatusCode resp \<noteq> 200 then
        (let ((body, err), b1) = ReadAll (Body resp);
             (cerr, b2) = Body_Close b1
         in (Inl (API \<lparr>APIError.StatusCode = Response.StatusCode resp,
                        Message = ''unexpected status code: '' @ show_int (Response.StatusCode resp)
                                  @ '', body: '' @ body,
                        Details = None, RequestID = []\<rparr>),
             resp\<lparr>Body := b2\<rparr>))
      else (Inr (New parent resp), resp))"

section \<open>The REST client's response handling (internal/rest)\<close>

text \<open>
  \<open>parseErrorResponse\<close>. Two library functions are parameters: \<open>StatusText\<close> is
  \<open>http.StatusText\<close>, and \<open>unmarshal\<close> is \<open>json.Unmarshal\<close> into a fresh zero
  \<open>APIError\<close>, giving the decoded struct or the decoder's error. The response is
  returned with its body read.
\<close>

definition parseErrorResponse ::
  "(int \<Rightarrow> string) \<Rightarrow> (string \<Rightarrow> error + APIError) \<Rightarrow> Response \<Rightarrow> error \<times> Response" where
  "parseErrorResponse StatusText unmarshal resp =
     (let ((body, err), b) = ReadAll (Body resp); resp' = resp\<lparr>Body := b\<rparr> in
      case err of
        Some e \<Rightarrow>
          (API \<lparr>APIError.StatusCode = Response.StatusCode resp,
                 Message = ''failed to read error response body: '' @ Error e,
                 Details = None, RequestID = []\<rparr>, resp')
      | None \<Rightarrow>
          if length body = 0 then
            (API \<lparr>APIError.StatusCode = Response.StatusCode resp,
                   Message = StatusText (Response.StatusCode resp),
                   Details = None, RequestID = []\<rparr>, resp')
          else
            (case unmarshal body of
               Inl e \<Rightarrow>
                 (API \<lparr>APIError.StatusCode = Response.StatusCode resp,
                        Message = body, Details = None, RequestID = []\<rparr>, resp')
             | Inr apiError \<Rightarrow>
                 (API (apiError\<lparr>APIError.StatusCode := Response.StatusCode resp\<rparr>), resp')))"

text \<open>
  \<open>handleResponse\<close>. The output target \<open>result\<close> is \<open>None\<close> for a nil interface and
  otherwise holds the caller's value; the function returns the error together with the
  value the target holds afterwards. \<open>Unmarshal body v\<close> is \<open>json.Unmarshal\<close> into a
  target holding \<open>v\<close>: its error and what the target holds after the call (the decoder
  may store into the target also when it reports an error).
\<close>

definition handleResponse ::
  "(int \<Rightarrow> string) \<Rightarrow> (string \<Rightarrow> error + APIError) \<Rightarrow> (string \<Rightarrow> 'a \<Rightarrow> error option \<times> 'a)
   \<Rightarrow> Response \<Rightarrow> 'a option \<Rightarrow> (error option \<times> 'a option) \<times> Response" where
  "handleResponse StatusText unmarshal Unmarshal resp result =
     (if Response.StatusCode resp < 200 \<or> Response.StatusCode resp \<ge> 300 then
        (let (e, resp') = parseErrorResponse StatusText unmarshal resp
         in ((Some e, result), resp'))
      else
        (case result of
           None \<Rightarrow> ((None, result), resp)
         | Some target \<Rightarrow>
             if Response.StatusCode resp = 204 then ((None, result), resp)
             else
               (let ((body, err), b) = ReadAll (Body resp); resp' = resp\<lparr>Body := b\<rparr> in
                if err \<noteq> None then
                  ((Some (RequestError ''failed to read response body''
                            (Response.StatusCode resp) err), result), resp')
                else if length body = 0 then ((None, result), resp')
                else
                  (case Unmarshal body target of
                     (Some e, target') \<Rightarrow>
                       ((Some (RequestError ''failed to unmarshal response body''
                                 (Response.StatusCode resp) (Some e)), Some target'), resp')
                   | (None, target') \<Rightarrow> ((None, Some target'), resp')))))"

text \<open>
  The part of \<open>DoRaw\<close> after the HTTP client has returned a response: an error
  response is parsed and closed, any other is handed on open and unread.
\<close>

definition DoRaw_response ::
  "(int \<Rightarrow> string) \<Rightarrow> (string \<Rightarrow> error + APIError) \<Rightarrow> Response \<Rightarrow> error option \<times> Response" where
  "DoRaw_response StatusText unmarshal resp =
     (if Response.StatusCode resp < 200 \<or> Response.StatusCode resp \<ge> 300 then
        (let (e, resp') = parseErrorResponse StatusText unmarshal resp;
             (cerr, b) = Body_Close (Body resp')
         in (Some e, resp'\<lparr>Body := b\<rparr>))
      else (None, resp))"

section \<open>Sample JSON decoders\<close>

text \<open>
  Decoders to run the functions on concrete inputs. \<open>Unmarshal_bool\<close> stands for
  \<open>json.Unmarshal\<close> into a \<open>bool\<close> target: after the JSON white space around the
  value is removed, \<open>true\<close> and \<open>false\<close> are stored, \<open>null\<close> leaves the target as it
  is, and every other input, the empty one too, is an error that leaves the target as
  it is (in Go a syntax error or a type error). The message is the library's for the
  empty input and a stand-in for the rest. \<open>unmarshal_bool\<close> is the same decoder on a
  fresh zero value.
\<close>

definition json_space :: "char \<Rightarrow> bool" where
  "json_space c = (c = CHR '' '' \<or> c = CHR 0x09 \<or> c = NL \<or> c = CR)"

definition Unmarshal_bool :: "string \<Rightarrow> bool \<Rightarrow> error option \<times> bool" where
  "Unmarshal_bool s target =
     (let v = rev (dropWhile json_space (rev (dropWhile json_space s))) in
      if v = ''true'' then (None, True)
      else if v = ''false'' then (None, False)
      else if v = ''null'' then (None, target)
      else if v = [] then (Some (Opaque ''unexpected end of JSON input''), target)
      else (Some (Opaque ''json: cannot unmarshal into Go value of type bool''), target))"

definition unmarshal_bool :: "string \<Rightarrow> error + bool" where
  "unmarshal_bool s =
     (case Unmarshal_bool s False of (Some e, v) \<Rightarrow> Inl e | (None, v) \<Rightarrow> Inr v)"

text \<open>
  \<open>unmarshal_APIError_sample\<close> agrees with \<open>json.Unmarshal\<close> into an \<open>APIError\<close> on
  the two error bodies it lists and on the empty input, and reports a syntax error
  elsewhere.
\<close>

definition unmarshal_APIError_sample :: "string \<Rightarrow> error + APIError" where
  "unmarshal_APIError_sample s =
     (if s = ''{\"message\":\"bad field\",\"status_code\":400}'' then
        Inr \<lparr>APIError.StatusCode = 400, Message = ''bad field'', Details = None, RequestID = []\<rparr>
      else if s = ''{\"status_code\":200,\"message\":\"gone\"}'' then
        Inr \<lparr>APIError.StatusCode = 200, Message = ''gone'', Details = None, RequestID = []\<rparr>
      else if s = [] then Inl (Opaque ''unexpected end of JSON input'')
      else Inl (Opaque ''invalid character looking for beginning of value''))"

section \<open>Sequences of calls and well-formed event streams\<close>

text \<open>
  A caller of a stream makes \<open>Recv\<close> and \<open>Close\<close> calls one after the other; \<open>calls\<close>
  runs a list of them and collects what each returned.
\<close>

datatype call = CallRecv | CallClose

datatype 'a reply = RecvReply "error + 'a" | CloseReply "error option"

fun do_call :: "(string \<Rightarrow> error + 'a) \<Rightarrow> call \<Rightarrow> Stream \<Rightarrow> 'a reply \<times> Stream" where
  "do_call unmarshal CallRecv s = (let (r, s') = Recv unmarshal s in (RecvReply r, s'))"
| "do_call unmarshal CallClose s = (let (r, s') = Close s in (CloseReply r, s'))"

fun calls :: "(string \<Rightarrow> error + 'a) \<Rightarrow> call list \<Rightarrow> Stream \<Rightarrow> 'a reply list \<times> Stream" where
  "calls unmarshal [] s = ([], s)"
| "calls unmarshal (c # cs) s =
     (let (r, s') = do_call unmarshal c s; (rs, s'') = calls unmarshal cs s'
      in (r # rs, s''))"

text \<open>What every call returns on a closed stream.\<close>

fun closed_reply :: "call \<Rightarrow> 'a reply" where
  "closed_reply CallRecv = RecvReply (Inl ErrStreamClosed)"
| "closed_reply CallClose = CloseReply None"

text \<open>\<open>Recv_n unmarshal n s\<close>: \<open>n\<close> sequential \<open>Recv\<close> calls and their results in order.\<close>

fun Recv_n :: "(string \<Rightarrow> error + 'a) \<Rightarrow> nat \<Rightarrow> Stream \<Rightarrow> (error + 'a) list \<times> Stream" where
  "Recv_n unmarshal 0 s = ([], s)"
| "Recv_n unmarshal (Suc n) s =
     (let (r, s') = Recv unmarshal s; (rs, s'') = Recv_n unmarshal n s'
      in (r # rs, s''))"

text \<open>
  The wire form of events. A field line is a line of an event without its end: it holds
  no newline and is not blank (neither empty nor a lone carriage return, which with the
  newline would be the blank line that ends an event). An event on the wire is its
  field lines, each ended by a newline; a blank-line-terminated event is a non-empty
  list of field lines followed by the blank line \<open>\n\<close> or \<open>\r\n\<close>.
\<close>

definition field_line :: "string \<Rightarrow> bool" where
  "field_line l = (NL \<notin> set l \<and> l \<noteq> [] \<and> l \<noteq> [CR])"

definition event_text :: "string list \<Rightarrow> string" where
  "event_text ls = concat (map (\<lambda>l. l @ [NL]) ls)"

definition blank_line :: "string \<Rightarrow> bool" where
  "blank_line t = (t = [NL] \<or> t = [CR, NL])"

definition event_lines :: "string list \<Rightarrow> bool" where
  "event_lines ls = (ls \<noteq> [] \<and> list_all field_line ls)"

definition well_formed_event :: "string list \<times> string \<Rightarrow> bool" where
  "well_formed_event ev = (event_lines (fst ev) \<and> blank_line (snd ev))"

definition wire_event :: "string list \<times> string \<Rightarrow> string" where
  "wire_event ev = event_text (fst ev) @ snd ev"

text \<open>The item an event carries: its data payload, decoded.\<close>

definition decode_event :: "(string \<Rightarrow> error + 'a) \<Rightarrow> string list \<Rightarrow> error + 'a" where
  "decode_event unmarshal ls = unmarshal (data (parseEvent (event_text ls)))"

text \<open>A stream just created by \<open>New\<close> under a live context, over a body with the given bytes.\<close>

definition fresh_stream :: "int \<Rightarrow> string \<Rightarrow> error \<Rightarrow> error option \<Rightarrow> Stream" where
  "fresh_stream sc bytes end_err cr =
     New None \<lparr>Response.StatusCode = sc,
               Body = \<lparr>unread = bytes, at_end = end_err, close_result = cr, released = False\<rparr>\<rparr>"

text \<open>A sample of \<open>http.StatusText\<close>, right on the codes it lists.\<close>

definition StatusText_sample :: "int \<Rightarrow> string" where
  "StatusText_sample code =
     (if code = 200 then ''OK''
      else if code = 400 then ''Bad Request''
      else if code = 404 then ''Not Found''
      else if code = 500 then ''Internal Server Error''
      else [])"

text \<open>The stream \<open>s\<close> with \<open>bytes\<close> left to read in its body.\<close>

definition with_unread :: "Stream \<Rightarrow> string \<Rightarrow> Stream" where
  "with_unread s bytes =
     s\<lparr>response := (response s)\<lparr>Body := (Body (response s))\<lparr>unread := bytes\<rparr>\<rparr>\<rparr>"

text \<open>
  The values of a field joined by newlines, as the specification words the data
  payload of an event with several \<open>data:\<close> lines (\<open>strings.Join(values, "\n")\<close>).
\<close>

fun join_nl :: "string list \<Rightarrow> string" where
  "join_nl [] = []"
| "join_nl [v] = v"
| "join_nl (v # w # vs) = v @ NL # join_nl (w # vs)"

text \<open>The value the code reads off a \<open>data:\<close> line: what follows the prefix, trimmed.\<close>

definition data_value :: "string \<Rightarrow> string" where
  "data_value l = TrimSpace (drop 5 (TrimRight l [CR]))"

text \<open>A \<open>data:\<close> line with the text \<open>v\<close> after the prefix.\<close>

definition data_line :: "string \<Rightarrow> string" where
  "data_line v = ''data:'' @ v"

text \<open>A body that holds \<open>bytes\<close>, ends normally and closes without an error.\<close>

definition whole_body :: "string \<Rightarrow> Body" where
  "whole_body bytes = \<lparr>unread = bytes, at_end = EOF, close_result = None, released = False\<rparr>"

text \<open>
  The events of the wire format as the specification describes them: an event is a
  list of fields, each a line that starts with \<open>id:\<close>, \<open>event:\<close> or \<open>data:\<close>, or a
  comment line that starts with a colon; the argument is the text of the line after
  the prefix. A field is well formed when its text holds no newline. The value of a
  field is its text without trailing carriage returns and without the white space
  around it, and the data payload of an event is the values of its \<open>data:\<close> fields,
  in their order, joined by newlines. None of this refers to \<open>parseEvent\<close>.
\<close>

datatype field = IdField string | EventField string | DataField string | Comment string

fun wire_field :: "field \<Rightarrow> string" where
  "wire_field (IdField v) = ''id:'' @ v"
| "wire_field (EventField v) = ''event:'' @ v"
| "wire_field (DataField v) = ''data:'' @ v"
| "wire_field (Comment v) = '':'' @ v"

fun field_text :: "field \<Rightarrow> string" where
  "field_text (IdField v) = v"
| "field_text (EventField v) = v"
| "field_text (DataField v) = v"
| "field_text (Comment v) = v"

definition field_ok :: "field \<Rightarrow> bool" where
  "field_ok f = (NL \<notin> set (field_text f))"

definition field_value :: "string \<Rightarrow> string" where
  "field_value v = TrimSpace (TrimRight v [CR])"

fun data_fields :: "field list \<Rightarrow> string list" where
  "data_fields [] = []"
| "data_fields (DataField v # fs) = v # data_fields fs"
| "data_fields (f # fs) = data_fields fs"

definition payload :: "field list \<Rightarrow> string" where
  "payload fs = join_nl (map field_value (data_fields fs))"

text \<open>
  A blank-line-terminated event: at least one field, all well formed, and the blank
  line \<open>\n\<close> or \<open>\r\n\<close> after them. Its bytes are the fields, each ended by a newline,
  and the blank line.
\<close>

definition sse_event :: "field list \<times> string \<Rightarrow> bool" where
  "sse_event ev = (fst ev \<noteq> [] \<and> list_all field_ok (fst ev) \<and> blank_line (snd ev))"

definition wire_sse_event :: "field list \<times> string \<Rightarrow> string" where
  "wire_sse_event ev = event_text (map wire_field (fst ev)) @ snd ev"

section \<open>Error classification\<close>

text \<open>
  C7. The machine code of an APIError depends on its status code only, and follows the
  table 400 invalid_request, 401 authentication_error, 403 permission_error,
  404 not_found, 429 rate_limit_exceeded, 500 and above server_error, everything else
  api_error.
\<close>

theorem APIError_Code_mapping:
  "(APIError.StatusCode e = APIError.StatusCode e' \<longrightarrow> APIError_Code e = APIError_Code e')
   \<and> (APIError.StatusCode e = 400 \<longrightarrow> APIError_Code e = ''invalid_request'')
   \<and> (APIError.StatusCode e = 401 \<longrightarrow> APIError_Code e = ''authentication_error'')
   \<and> (APIError.StatusCode e = 403 \<longrightarrow> APIError_Code e = ''permission_error'')
   \<and> (APIError.StatusCode e = 404 \<longrightarrow> APIError_Code e = ''not_found'')
   \<and> (APIError.StatusCode e = 429 \<longrightarrow> APIError_Code e = ''rate_limit_exceeded'')
   \<and> (APIError.StatusCode e \<ge> 500 \<longrightarrow> APIError_Code e = ''server_error'')
   \<and> (APIError.StatusCode e < 500 \<and> APIError.StatusCode e \<notin> {400, 401, 403, 404, 429}
        \<longrightarrow> APIError_Code e = ''api_error'')"
  by (simp add: APIError_Code_def)

theorem APIError_Code_mapping_witness:
  "APIError_Code \<lparr>APIError.StatusCode = 400, Message = ''bad field'', Details = None, RequestID = ''''\<rparr>
     = ''invalid_request''
   \<and> APIError_Code \<lparr>APIError.StatusCode = 400, Message = ''other'', Details = None, RequestID = ''r1''\<rparr>
     = APIError_Code \<lparr>APIError.StatusCode = 400, Message = ''bad field'', Details = None, RequestID = ''''\<rparr>
   \<and> APIError_Code \<lparr>APIError.StatusCode = 503, Message = ''down'', Details = None, RequestID = ''''\<rparr>
     = ''server_error''
   \<and> APIError_Code \<lparr>APIError.StatusCode = 418, Message = ''teapot'', Details = None, RequestID = ''''\<rparr>
     = ''api_error''"
proof -
  let ?a = "\<lparr>APIError.StatusCode = 400, Message = ''bad field'', Details = None, RequestID = ''''\<rparr>"
  let ?b = "\<lparr>APIError.StatusCode = 400, Message = ''other'', Details = None, RequestID = ''r1''\<rparr>"
  let ?c = "\<lparr>APIError.StatusCode = 503, Message = ''down'', Details = None, RequestID = ''''\<rparr>"
  let ?d = "\<lparr>APIError.StatusCode = 418, Message = ''teapot'', Details = None, RequestID = ''''\<rparr>"
  have a: "APIError_Code ?a = ''invalid_request''"
    using APIError_Code_mapping [of ?a ?a] by simp
  have b: "APIError_Code ?b = APIError_Code ?a"
    using APIError_Code_mapping [of ?b ?a] by simp
  have c: "APIError_Code ?c = ''server_error''"
    using APIError_Code_mapping [of ?c ?c] by simp
  have d: "APIError_Code ?d = ''api_error''"
    using APIError_Code_mapping [of ?d ?d] by simp
  from a b c d show ?thesis by simp
qed

text \<open>
  C10. A RequestError reports its stored status code when that is not zero, and 500 when
  none was set; \<open>ErrCanceled\<close>, built with no status code, reports 500.
\<close>

theorem RequestError_HTTPStatusCode_default:
  "(sc \<noteq> 0 \<longrightarrow> RequestError_HTTPStatusCode (RequestError msg sc err) = sc)
   \<and> RequestError_HTTPStatusCode (RequestError msg 0 err) = 500
   \<and> RequestError_HTTPStatusCode ErrCanceled = 500"
  by (simp add: ErrCanceled_def)

theorem RequestError_HTTPStatusCode_default_witness:
  "RequestError_HTTPStatusCode ErrTimeout = 504
   \<and> RequestError_HTTPStatusCode (RequestError ''request canceled'' 0 None) = 500
   \<and> RequestError_HTTPStatusCode ErrCanceled = 500"
  using RequestError_HTTPStatusCode_default [of 504 "''request timed out''" None]
    RequestError_HTTPStatusCode_default [of 0 "''request canceled''" None]
  by (simp add: ErrTimeout_def)

section \<open>The closed and the cancelled stream\<close>

lemma closed_do_call: "closed s \<Longrightarrow> do_call unmarshal c s = (closed_reply c, s)"
  by (cases c) (simp_all add: Recv_def Close_def)

lemma closed_calls: "closed s \<Longrightarrow> calls unmarshal cs s = (map closed_reply cs, s)"
  by (induction cs) (simp_all add: closed_do_call)

lemma closed_after_Close: "closed (snd (Close s))"
  by (simp add: Close_def Body_Close_def)

text \<open>
  C4. Whatever state a stream is in, once \<open>Close\<close> has returned the stream is closed;
  the next \<open>Recv\<close> returns \<open>ErrStreamClosed\<close> and the next \<open>Close\<close> returns nil, and
  both leave the stream as it is, the body's unread bytes included. So does every
  sequence \<open>cs\<close> of further \<open>Recv\<close> and \<open>Close\<close> calls: each \<open>Recv\<close> among them returns
  \<open>ErrStreamClosed\<close>, each \<open>Close\<close> nil, and the state after them is the state after
  the first \<open>Close\<close>.
\<close>

theorem Close_absorbing:
  "closed (snd (Close s))
   \<and> Recv unmarshal (snd (Close s)) = (Inl ErrStreamClosed, snd (Close s))
   \<and> Close (snd (Close s)) = (None, snd (Close s))
   \<and> calls unmarshal cs (snd (Close s)) = (map closed_reply cs, snd (Close s))"
  using closed_after_Close [of s] closed_calls [of "snd (Close s)" unmarshal cs]
  by (simp add: Recv_def Close_def [of "snd (Close s)"])

text \<open>
  C5. On a stream that is not closed and whose context is done with the error \<open>e\<close>,
  \<open>Recv\<close> returns \<open>e\<close> and leaves the stream, and so the body, untouched: nothing is
  read and nothing is decoded.
\<close>

theorem Recv_cancelled:
  "\<not> closed s \<Longrightarrow> ctx s = Some e \<Longrightarrow> Recv unmarshal s = (Inl e, s)"
  by (simp add: Recv_def)

theorem Recv_cancelled_witness:
  "\<not> closed (New (Some Canceled) \<lparr>Response.StatusCode = 200,
        Body = \<lparr>unread = ''data: true\<newline>\<newline>'', at_end = EOF, close_result = None,
                 released = False\<rparr>\<rparr>)
   \<and> Recv unmarshal_bool (New (Some Canceled) \<lparr>Response.StatusCode = 200,
        Body = \<lparr>unread = ''data: true\<newline>\<newline>'', at_end = EOF, close_result = None,
                 released = False\<rparr>\<rparr>)
     = (Inl Canceled, New (Some Canceled) \<lparr>Response.StatusCode = 200,
        Body = \<lparr>unread = ''data: true\<newline>\<newline>'', at_end = EOF, close_result = None,
                 released = False\<rparr>\<rparr>)"
  using Recv_cancelled [of "New (Some Canceled) \<lparr>Response.StatusCode = 200,
        Body = \<lparr>unread = ''data: true\<newline>\<newline>'', at_end = EOF, close_result = None,
                 released = False\<rparr>\<rparr>" Canceled unmarshal_bool]
  by (simp add: New_def)

section \<open>Reading events off the body\<close>

lemma takeWhile_line: "d \<notin> set l \<Longrightarrow> takeWhile (\<lambda>c. c \<noteq> d) (l @ d # rest) = l"
  by (induction l) auto

lemma dropWhile_line: "d \<notin> set l \<Longrightarrow> dropWhile (\<lambda>c. c \<noteq> d) (l @ d # rest) = d # rest"
  by (induction l) auto

lemma ReadString_line:
  "NL \<notin> set l \<Longrightarrow>
   ReadString (b\<lparr>unread := l @ NL # rest\<rparr>) NL = ((l @ [NL], None), b\<lparr>unread := rest\<rparr>)"
  by (simp add: ReadString_def takeWhile_line dropWhile_line)

lemma ReadString_end:
  "ReadString (b\<lparr>unread := []\<rparr>) NL = (([], Some (at_end b)), b\<lparr>unread := []\<rparr>)"
  by (simp add: ReadString_def)

text \<open>A field line is appended to the buffer and the loop goes on.\<close>

lemma readEvent_loop_field_line:
  assumes "field_line l"
  shows "readEvent_loop (b\<lparr>unread := l @ NL # rest\<rparr>) buffer
         = readEvent_loop (b\<lparr>unread := rest\<rparr>) (buffer @ l @ [NL])"
proof -
  have nl: "NL \<notin> set l" and ne: "l \<noteq> []" and ncr: "l \<noteq> [CR]"
    using assms by (simp_all add: field_line_def)
  have not_blank: "l @ [NL] \<noteq> [NL]" "l @ [NL] \<noteq> [CR, NL]"
    using ne ncr by (cases l; simp)+
  show ?thesis
    using ne ncr not_blank
    by (subst readEvent_loop.simps) (simp add: ReadString_line [OF nl] Let_def)
qed

lemma readEvent_loop_lines:
  "list_all field_line ls \<Longrightarrow>
   readEvent_loop (b\<lparr>unread := event_text ls @ rest\<rparr>) buffer
     = readEvent_loop (b\<lparr>unread := rest\<rparr>) (buffer @ event_text ls)"
proof (induction ls arbitrary: buffer)
  case Nil
  then show ?case by (simp add: event_text_def)
next
  case (Cons l ls)
  then have l: "field_line l" and ls: "list_all field_line ls" by simp_all
  have "readEvent_loop (b\<lparr>unread := event_text (l # ls) @ rest\<rparr>) buffer
      = readEvent_loop (b\<lparr>unread := l @ NL # (event_text ls @ rest)\<rparr>) buffer"
    by (simp add: event_text_def)
  also have "\<dots> = readEvent_loop (b\<lparr>unread := event_text ls @ rest\<rparr>) (buffer @ l @ [NL])"
    by (rule readEvent_loop_field_line [OF l])
  also have "\<dots> = readEvent_loop (b\<lparr>unread := rest\<rparr>) ((buffer @ l @ [NL]) @ event_text ls)"
    by (rule Cons.IH [OF ls])
  finally show ?case by (simp add: event_text_def)
qed

text \<open>A blank line after a non-empty buffer ends the event.\<close>

lemma readEvent_loop_blank:
  assumes "blank_line t" and "buffer \<noteq> []"
  shows "readEvent_loop (b\<lparr>unread := t @ rest\<rparr>) buffer
         = (Inr (parseEvent buffer), b\<lparr>unread := rest\<rparr>)"
proof -
  from assms(1) consider "t = [NL]" | "t = [CR, NL]" by (auto simp: blank_line_def)
  then show ?thesis
  proof cases
    case 1
    have "ReadString (b\<lparr>unread := [] @ NL # rest\<rparr>) NL = (([] @ [NL], None), b\<lparr>unread := rest\<rparr>)"
      by (rule ReadString_line) simp
    then show ?thesis using 1 assms(2)
      by (subst readEvent_loop.simps) (simp add: Let_def)
  next
    case 2
    have "ReadString (b\<lparr>unread := [CR] @ NL # rest\<rparr>) NL
        = (([CR] @ [NL], None), b\<lparr>unread := rest\<rparr>)"
      by (rule ReadString_line) simp
    then show ?thesis using 2 assms(2)
      by (subst readEvent_loop.simps) (simp add: Let_def)
  qed
qed

text \<open>At the end of the body the buffer decides between a last event and \<open>io.EOF\<close>.\<close>

lemma readEvent_loop_end:
  assumes "at_end b = EOF"
  shows "readEvent_loop (b\<lparr>unread := []\<rparr>) buffer
         = (if buffer \<noteq> [] then Inr (parseEvent buffer) else Inl EOF, b\<lparr>unread := []\<rparr>)"
  using assms
  by (subst readEvent_loop.simps) (simp add: ReadString_end Let_def)

lemma event_text_nonempty: "event_lines ls \<Longrightarrow> event_text ls \<noteq> []"
  by (cases ls) (simp_all add: event_lines_def event_text_def)

lemma readEvent_event:
  assumes "well_formed_event ev"
  shows "readEvent (with_unread s (wire_event ev @ rest))
         = (Inr (parseEvent (event_text (fst ev))), with_unread s rest)"
proof -
  obtain ls t where ev: "ev = (ls, t)" by (cases ev)
  from assms ev have ls: "list_all field_line ls" and ne: "event_text ls \<noteq> []"
    and t: "blank_line t"
    by (simp_all add: well_formed_event_def event_lines_def event_text_nonempty)
  let ?b = "Body (response s)"
  have "readEvent_loop (?b\<lparr>unread := event_text ls @ (t @ rest)\<rparr>) []
      = readEvent_loop (?b\<lparr>unread := t @ rest\<rparr>) ([] @ event_text ls)"
    by (rule readEvent_loop_lines [OF ls])
  also have "\<dots> = (Inr (parseEvent (event_text ls)), ?b\<lparr>unread := rest\<rparr>)"
    using readEvent_loop_blank [OF t ne, where b = ?b and rest = rest] by simp
  finally show ?thesis
    by (simp add: readEvent_def with_unread_def wire_event_def ev)
qed

lemma readEvent_last_event:
  assumes "event_lines ls" and "at_end (Body (response s)) = EOF"
  shows "readEvent (with_unread s (event_text ls))
         = (Inr (parseEvent (event_text ls)), with_unread s [])"
proof -
  from assms(1) have ls: "list_all field_line ls" and ne: "event_text ls \<noteq> []"
    by (simp_all add: event_lines_def event_text_nonempty)
  let ?b = "Body (response s)"
  have "readEvent_loop (?b\<lparr>unread := event_text ls @ []\<rparr>) []
      = readEvent_loop (?b\<lparr>unread := []\<rparr>) ([] @ event_text ls)"
    by (rule readEvent_loop_lines [OF ls])
  also have "\<dots> = (Inr (parseEvent (event_text ls)), ?b\<lparr>unread := []\<rparr>)"
    using readEvent_loop_end [OF assms(2), of "event_text ls"] ne by simp
  finally show ?thesis
    by (simp add: readEvent_def with_unread_def)
qed

lemma readEvent_end:
  assumes "at_end (Body (response s)) = EOF"
  shows "readEvent (with_unread s []) = (Inl EOF, with_unread s [])"
  using readEvent_loop_end [OF assms, of "[]"]
  by (simp add: readEvent_def with_unread_def)

lemma with_unread_fields [simp]:
  "closed (with_unread s bytes) = closed s"
  "ctx (with_unread s bytes) = ctx s"
  "at_end (Body (response (with_unread s bytes))) = at_end (Body (response s))"
  "with_unread (with_unread s bytes) bytes' = with_unread s bytes'"
  by (simp_all add: with_unread_def)

lemma Recv_event:
  assumes "\<not> closed s" and "ctx s = None" and "well_formed_event ev"
    and "decode_event unmarshal (fst ev) = Inr item"
  shows "Recv unmarshal (with_unread s (wire_event ev @ rest)) = (Inr item, with_unread s rest)"
  using assms(1,2,4)
  by (simp add: Recv_def readEvent_event [OF assms(3)] decode_event_def)

lemma Recv_last_event:
  assumes "\<not> closed s" and "ctx s = None" and "at_end (Body (response s)) = EOF"
    and "event_lines ls" and "decode_event unmarshal ls = Inr item"
  shows "Recv unmarshal (with_unread s (event_text ls)) = (Inr item, with_unread s [])"
  using assms(1,2,5)
  by (simp add: Recv_def readEvent_last_event [OF assms(4,3)] decode_event_def)

lemma Recv_end:
  assumes "\<not> closed s" and "ctx s = None" and "at_end (Body (response s)) = EOF"
  shows "Recv unmarshal (with_unread s []) = (Inl EOF, with_unread s [])"
  using assms(1,2)
  by (simp add: Recv_def readEvent_end [OF assms(3)])

lemma Recv_n_events:
  assumes "\<not> closed s" and "ctx s = None"
  shows "list_all well_formed_event evs \<Longrightarrow>
         map (\<lambda>ev. decode_event unmarshal (fst ev)) evs = map Inr items \<Longrightarrow>
         Recv_n unmarshal (length evs) (with_unread s (concat (map wire_event evs) @ rest))
           = (map Inr items, with_unread s rest)"
proof (induction evs arbitrary: items)
  case Nil
  then show ?case by simp
next
  case (Cons ev evs)
  from Cons.prems(2) obtain item items' where items: "items = item # items'"
    and item: "decode_event unmarshal (fst ev) = Inr item"
    and rest: "map (\<lambda>ev. decode_event unmarshal (fst ev)) evs = map Inr items'"
    by (cases items) auto
  from Cons.prems(1) have ev: "well_formed_event ev" and evs: "list_all well_formed_event evs"
    by simp_all
  have "Recv unmarshal (with_unread s (wire_event ev @ (concat (map wire_event evs) @ rest)))
      = (Inr item, with_unread s (concat (map wire_event evs) @ rest))"
    by (rule Recv_event [OF assms ev item])
  then show ?case
    using Cons.IH [OF evs rest] by (simp add: items)
qed

lemma Recv_n_add:
  "Recv_n unmarshal (n + m) s =
     (let (rs, s') = Recv_n unmarshal n s; (rs', s'') = Recv_n unmarshal m s'
      in (rs @ rs', s''))"
  by (induction n arbitrary: s) (simp_all add: Let_def split: prod.splits)

lemma fresh_stream_with_unread:
  "fresh_stream sc bytes end_err cr = with_unread (fresh_stream sc [] end_err cr) bytes"
  by (simp add: fresh_stream_def with_unread_def New_def)

lemma fresh_stream_fields:
  "\<not> closed (fresh_stream sc bytes end_err cr)"
  "ctx (fresh_stream sc bytes end_err cr) = None"
  "at_end (Body (response (fresh_stream sc bytes end_err cr))) = end_err"
  by (simp_all add: fresh_stream_def New_def)

lemmas trim_defs = TrimSpace_def leading_space_def space_encodings_def TrimRight_def

lemmas parse_defs =
  parseEvent_def parseLine_def HasPrefix_def Contains_def SplitN2_def event_text_def

lemmas bool_defs = unmarshal_bool_def Unmarshal_bool_def json_space_def

section \<open>Events with several data lines\<close>

text \<open>
  C2. The data payload of an event with several \<open>data:\<close> lines is claimed to be the
  values of the lines joined by single newlines. In the event made of the lines
  \<open>data:\<close> and \<open>data: x\<close> the values are the empty string and \<open>x\<close>, which joined are a
  newline followed by \<open>x\<close>; \<open>parseEvent\<close> returns \<open>x\<close>, because it puts the newline in
  only when the data gathered so far is not empty.
\<close>

theorem parseEvent_leading_empty_data_dropped:
  "data (parseEvent (event_text [''data:'', ''data: x''])) = ''x''
   \<and> join_nl (map data_value [''data:'', ''data: x'']) = NL # ''x''"
  by (simp add: parse_defs trim_defs data_value_def)

text \<open>
  What \<open>parseEvent\<close> computes on an event of \<open>data:\<close> lines: the values joined by
  newlines after the empty values at the front are dropped. The claim of C2 holds for
  the events whose first value is not empty.
\<close>

lemma Split_line: "sep \<notin> set l \<Longrightarrow> Split (l @ sep # rest) sep = l # Split rest sep"
  by (induction l) auto

lemma Split_event_text:
  "list_all (\<lambda>l. NL \<notin> set l) ls \<Longrightarrow> Split (event_text ls) NL = ls @ [[]]"
  by (induction ls) (simp_all add: event_text_def Split_line)

lemma TrimRight_data_line:
  "TrimRight (data_line v) [CR] = ''data:'' @ TrimRight v [CR]"
  by (simp add: TrimRight_def dropWhile_append data_line_def)

lemma parseLine_data_line:
  "parseLine ev (data_line v)
   = ev\<lparr>data := (if data ev \<noteq> [] then data ev @ [NL] else data ev) @ data_value (data_line v)\<rparr>"
  by (simp add: parseLine_def TrimRight_data_line HasPrefix_def data_value_def Let_def)

lemma parseLine_empty: "parseLine ev [] = ev"
  by (simp add: parseLine_def TrimRight_def)

lemma join_nl_append: "join_nl ((a @ NL # v) # vs) = join_nl (a # v # vs)"
  by (cases vs) simp_all

lemma data_parseLine_data_line:
  "data (parseLine ev (data_line v))
   = (if data ev \<noteq> [] then data ev @ NL # data_value (data_line v)
      else data_value (data_line v))"
  by (simp add: parseLine_data_line)

lemma foldl_data_lines:
  "data (foldl parseLine ev (map data_line vs))
   = (if data ev \<noteq> [] then join_nl (data ev # map (\<lambda>v. data_value (data_line v)) vs)
      else join_nl (dropWhile (\<lambda>d. d = []) (map (\<lambda>v. data_value (data_line v)) vs)))"
proof (induction vs arbitrary: ev)
  case Nil
  then show ?case by simp
next
  case (Cons v vs)
  let ?ev = "parseLine ev (data_line v)"
  let ?ds = "map (\<lambda>v. data_value (data_line v)) vs"
  have step: "data (foldl parseLine ev (map data_line (v # vs)))
      = (if data ?ev \<noteq> [] then join_nl (data ?ev # ?ds)
         else join_nl (dropWhile (\<lambda>d. d = []) ?ds))"
    using Cons.IH [of ?ev] by simp
  show ?case
  proof (cases "data ev = []")
    case True
    then have "data ?ev = data_value (data_line v)"
      by (simp add: data_parseLine_data_line)
    with step True show ?thesis by simp
  next
    case False
    then have "data ?ev = data ev @ NL # data_value (data_line v)"
      by (simp add: data_parseLine_data_line)
    with step False show ?thesis by (simp add: join_nl_append)
  qed
qed

lemma parseEvent_data_lines:
  assumes "list_all (\<lambda>v. NL \<notin> set v) vs"
  shows "data (parseEvent (event_text (map data_line vs)))
         = join_nl (dropWhile (\<lambda>d. d = []) (map (\<lambda>v. data_value (data_line v)) vs))"
proof -
  have "list_all (\<lambda>l. NL \<notin> set l) (map data_line vs)"
    using assms by (induction vs) (simp_all add: data_line_def)
  then have "Split (event_text (map data_line vs)) NL = map data_line vs @ [[]]"
    by (rule Split_event_text)
  then show ?thesis
    by (simp add: parseEvent_def parseLine_empty foldl_data_lines Let_def)
qed

lemma parseEvent_data_lines_joined:
  assumes "list_all (\<lambda>v. NL \<notin> set v) (v # vs)" and "data_value (data_line v) \<noteq> []"
  shows "data (parseEvent (event_text (map data_line (v # vs))))
         = join_nl (map (\<lambda>v. data_value (data_line v)) (v # vs))"
  using parseEvent_data_lines [OF assms(1)] assms(2) by simp

section \<open>Events on the wire and what \<open>Recv\<close> returns for them\<close>

text \<open>
  What \<open>parseEvent\<close> makes of the fields of an event: an \<open>id:\<close>, an \<open>event:\<close> and a
  comment line leave the data as it is, a \<open>data:\<close> line appends its value. On a
  well-formed event the data is the payload without the empty values at its front.
\<close>

lemma TrimRight_prefixed:
  "p \<noteq> [] \<Longrightarrow> last p \<noteq> CR \<Longrightarrow> TrimRight (p @ v) [CR] = p @ TrimRight v [CR]"
  by (cases p rule: rev_cases) (auto simp: TrimRight_def dropWhile_append)

lemma TrimRight_wire_field:
  "TrimRight (wire_field f) [CR]
   = (case f of IdField v \<Rightarrow> ''id:'' @ TrimRight v [CR]
      | EventField v \<Rightarrow> ''event:'' @ TrimRight v [CR]
      | DataField v \<Rightarrow> ''data:'' @ TrimRight v [CR]
      | Comment v \<Rightarrow> '':'' @ TrimRight v [CR])"
  by (cases f) (simp_all add: TrimRight_prefixed del: append.simps)

lemma data_parseLine_wire_field:
  "data (parseLine ev (wire_field f))
   = (case f of
        DataField v \<Rightarrow>
          (if data ev \<noteq> [] then data ev @ NL # field_value v else field_value v)
      | _ \<Rightarrow> data ev)"
  by (cases f)
     (simp_all add: parseLine_def TrimRight_wire_field HasPrefix_def field_value_def Let_def
        del: wire_field.simps)

lemma foldl_wire_fields:
  "data (foldl parseLine ev (map wire_field fs))
   = (if data ev \<noteq> [] then join_nl (data ev # map field_value (data_fields fs))
      else join_nl (dropWhile (\<lambda>d. d = []) (map field_value (data_fields fs))))"
proof (induction fs arbitrary: ev)
  case Nil
  then show ?case by simp
next
  case (Cons f fs)
  let ?ev = "parseLine ev (wire_field f)"
  let ?ds = "map field_value (data_fields fs)"
  have step: "data (foldl parseLine ev (map wire_field (f # fs)))
      = (if data ?ev \<noteq> [] then join_nl (data ?ev # ?ds)
         else join_nl (dropWhile (\<lambda>d. d = []) ?ds))"
    using Cons.IH [of ?ev] by simp
  show ?case
  proof (cases f)
    case (DataField v)
    show ?thesis
    proof (cases "data ev = []")
      case True
      then have "data ?ev = field_value v"
        by (simp add: data_parseLine_wire_field DataField del: wire_field.simps)
      with step True DataField show ?thesis by simp
    next
      case False
      then have "data ?ev = data ev @ NL # field_value v"
        by (simp add: data_parseLine_wire_field DataField del: wire_field.simps)
      with step False DataField show ?thesis by (simp add: join_nl_append)
    qed
  next
    case (IdField v)
    then have "data ?ev = data ev"
      by (simp add: data_parseLine_wire_field del: wire_field.simps)
    with step IdField show ?thesis by simp
  next
    case (EventField v)
    then have "data ?ev = data ev"
      by (simp add: data_parseLine_wire_field del: wire_field.simps)
    with step EventField show ?thesis by simp
  next
    case (Comment v)
    then have "data ?ev = data ev"
      by (simp add: data_parseLine_wire_field del: wire_field.simps)
    with step Comment show ?thesis by simp
  qed
qed

lemma wire_field_no_newline: "field_ok f \<Longrightarrow> NL \<notin> set (wire_field f)"
  by (cases f) (simp_all add: field_ok_def)

lemma wire_field_is_field_line: "field_ok f \<Longrightarrow> field_line (wire_field f)"
  by (cases f) (simp_all add: field_ok_def field_line_def)

lemma parseEvent_fields:
  assumes "list_all field_ok fs"
  shows "data (parseEvent (event_text (map wire_field fs)))
         = join_nl (dropWhile (\<lambda>d. d = []) (map field_value (data_fields fs)))"
proof -
  have "list_all (\<lambda>l. NL \<notin> set l) (map wire_field fs)"
    using assms by (induction fs) (simp_all add: wire_field_no_newline)
  then have "Split (event_text (map wire_field fs)) NL = map wire_field fs @ [[]]"
    by (rule Split_event_text)
  then show ?thesis
    by (simp add: parseEvent_def parseLine_empty foldl_wire_fields Let_def)
qed

text \<open>A decoder that skips a leading newline cannot tell the two joins apart.\<close>

lemma unmarshal_join_nl_dropWhile:
  assumes "\<And>s. unmarshal (NL # s) = unmarshal s"
  shows "unmarshal (join_nl (dropWhile (\<lambda>d. d = []) vs)) = unmarshal (join_nl vs)"
proof (induction vs)
  case Nil
  then show ?case by simp
next
  case (Cons v vs)
  show ?case
  proof (cases "v = []")
    case False
    then show ?thesis by simp
  next
    case True
    show ?thesis
    proof (cases vs)
      case Nil
      with True show ?thesis by simp
    next
      case (Cons w ws)
      have "unmarshal (join_nl (v # vs)) = unmarshal (join_nl vs)"
        using True Cons assms [of "join_nl (w # ws)"] by simp
      with True Cons.IH show ?thesis by simp
    qed
  qed
qed

lemma decode_event_payload:
  assumes "list_all field_ok fs" and "\<And>s. unmarshal (NL # s) = unmarshal s"
  shows "decode_event unmarshal (map wire_field fs) = unmarshal (payload fs)"
  using unmarshal_join_nl_dropWhile [of unmarshal, OF assms(2)]
  by (simp add: decode_event_def parseEvent_fields [OF assms(1)] payload_def)

lemma sse_event_raw:
  assumes "sse_event ev"
  shows "well_formed_event (map wire_field (fst ev), snd ev)"
proof -
  from assms have ne: "fst ev \<noteq> []" and ok: "list_all field_ok (fst ev)"
    and t: "blank_line (snd ev)"
    by (simp_all add: sse_event_def)
  have "list_all field_line (map wire_field (fst ev))"
    using ok by (induction "fst ev" arbitrary: ev) (simp_all add: wire_field_is_field_line list_all_iff)
  with ne t show ?thesis
    by (simp add: well_formed_event_def event_lines_def)
qed

lemma Recv_n_sse_events:
  assumes "\<not> closed s" and "ctx s = None" and "\<And>b. unmarshal (NL # b) = unmarshal b"
  shows "list_all sse_event evs \<Longrightarrow>
         map (\<lambda>ev. unmarshal (payload (fst ev))) evs = map Inr items \<Longrightarrow>
         Recv_n unmarshal (length evs) (with_unread s (concat (map wire_sse_event evs) @ rest))
           = (map Inr items, with_unread s rest)"
proof -
  assume wf: "list_all sse_event evs"
    and dec: "map (\<lambda>ev. unmarshal (payload (fst ev))) evs = map Inr items"
  let ?raw = "map (\<lambda>ev. (map wire_field (fst ev), snd ev)) evs"
  have raw_wf: "list_all well_formed_event ?raw"
    using wf by (induction evs) (simp_all add: sse_event_raw)
  have "map (\<lambda>ev. decode_event unmarshal (fst ev)) ?raw
      = map (\<lambda>ev. unmarshal (payload (fst ev))) evs"
    using wf decode_event_payload [where unmarshal = unmarshal] assms(3)
    by (induction evs) (simp_all add: sse_event_def)
  with dec have raw_dec: "map (\<lambda>ev. decode_event unmarshal (fst ev)) ?raw = map Inr items"
    by simp
  have bytes: "concat (map wire_event ?raw) = concat (map wire_sse_event evs)"
    by (induction evs) (simp_all add: wire_event_def wire_sse_event_def)
  have "Recv_n unmarshal (length ?raw) (with_unread s (concat (map wire_event ?raw) @ rest))
      = (map Inr items, with_unread s rest)"
    by (rule Recv_n_events [OF assms(1,2) raw_wf raw_dec])
  then show ?thesis
    by (simp only: bytes length_map)
qed

lemma unmarshal_bool_skips_newline: "unmarshal_bool (NL # b) = unmarshal_bool b"
  by (simp add: unmarshal_bool_def Unmarshal_bool_def json_space_def)

text \<open>
  C1. Let the body of a stream just created under a live context consist of the events
  \<open>evs\<close>, each a non-empty list of well-formed fields followed by a blank line, and let
  the data payload of the i-th event, the values of its \<open>data:\<close> fields joined by
  newlines, decode to the i-th of \<open>items\<close>. The decoder skips a newline in front of its
  input, as \<open>json.Unmarshal\<close> skips leading white space. Then \<open>length evs + 1\<close>
  sequential \<open>Recv\<close> calls return the items in the order of the events, and the last
  call returns \<open>io.EOF\<close> itself, not a wrapped error.
\<close>

theorem Recv_events_in_order:
  assumes "list_all sse_event evs"
    and "\<And>b. unmarshal (NL # b) = unmarshal b"
    and "map (\<lambda>ev. unmarshal (payload (fst ev))) evs = map Inr items"
  shows "fst (Recv_n unmarshal (length evs + 1)
               (fresh_stream sc (concat (map wire_sse_event evs)) EOF cr))
         = map Inr items @ [Inl EOF]"
proof -
  let ?s = "fresh_stream sc [] EOF cr"
  have first: "Recv_n unmarshal (length evs)
        (with_unread ?s (concat (map wire_sse_event evs) @ []))
      = (map Inr items, with_unread ?s [])"
    by (rule Recv_n_sse_events [OF fresh_stream_fields(1,2) assms(2) assms(1,3)])
  have last: "Recv unmarshal (with_unread ?s []) = (Inl EOF, with_unread ?s [])"
    by (rule Recv_end [OF fresh_stream_fields])
  have "Recv_n unmarshal (length evs + 1) (with_unread ?s (concat (map wire_sse_event evs)))
      = (map Inr items @ [Inl EOF], with_unread ?s [])"
    unfolding Recv_n_add using first last by simp
  then show ?thesis
    by (simp only: fresh_stream_with_unread [of sc "concat (map wire_sse_event evs)"] fst_conv)
qed

theorem Recv_events_in_order_witness:
  "list_all sse_event
     [([DataField '' true''], [NL]),
      ([IdField '' 7'', DataField [], DataField ('' false'' @ [CR])], [CR, NL])]
   \<and> map (\<lambda>ev. unmarshal_bool (payload (fst ev)))
       [([DataField '' true''], [NL]),
        ([IdField '' 7'', DataField [], DataField ('' false'' @ [CR])], [CR, NL])]
     = map Inr [True, False]
   \<and> fst (Recv_n unmarshal_bool 3
       (fresh_stream 200
          (''data: true\<newline>\<newline>id: 7\<newline>data:\<newline>data: false'' @ [CR, NL, CR, NL])
          EOF None))
     = [Inr True, Inr False, Inl EOF]"
proof -
  let ?evs = "[([DataField '' true''], [NL]),
      ([IdField '' 7'', DataField [], DataField ('' false'' @ [CR])], [CR, NL])]"
  have wf: "list_all sse_event ?evs"
    by (simp add: sse_event_def field_ok_def blank_line_def)
  have dec: "map (\<lambda>ev. unmarshal_bool (payload (fst ev))) ?evs = map Inr [True, False]"
    by (simp add: payload_def field_value_def trim_defs bool_defs)
  have "fst (Recv_n unmarshal_bool (length ?evs + 1)
               (fresh_stream 200 (concat (map wire_sse_event ?evs)) EOF None))
        = map Inr [True, False] @ [Inl EOF]"
    by (rule Recv_events_in_order [OF wf unmarshal_bool_skips_newline dec])
  then have "fst (Recv_n unmarshal_bool 3
       (fresh_stream 200
          (''data: true\<newline>\<newline>id: 7\<newline>data:\<newline>data: false'' @ [CR, NL, CR, NL])
          EOF None))
     = [Inr True, Inr False, Inl EOF]"
    by (simp add: wire_sse_event_def event_text_def numeral_3_eq_3)
  with wf dec show ?thesis by blast
qed

text \<open>
  When every line of a final event is ended by its newline and only the blank line is
  missing before the end of the body, the call that meets the end of the body returns
  the item of that event, and the call after it returns \<open>io.EOF\<close>.
\<close>

lemma Recv_final_event_newline_ended:
  assumes "list_all sse_event evs"
    and "\<And>b. unmarshal (NL # b) = unmarshal b"
    and "map (\<lambda>ev. unmarshal (payload (fst ev))) evs = map Inr items"
    and "fs \<noteq> []" and "list_all field_ok fs"
    and "unmarshal (payload fs) = Inr item"
  shows "fst (Recv_n unmarshal (length evs + 2)
               (fresh_stream sc
                  (concat (map wire_sse_event evs) @ event_text (map wire_field fs)) EOF cr))
         = map Inr items @ [Inr item, Inl EOF]"
proof -
  let ?s = "fresh_stream sc [] EOF cr"
  let ?ls = "map wire_field fs"
  have ls: "event_lines ?ls"
    using sse_event_raw [of "(fs, [NL])"] assms(4,5)
    by (simp add: sse_event_def blank_line_def well_formed_event_def)
  have item: "decode_event unmarshal ?ls = Inr item"
    using decode_event_payload [where unmarshal = unmarshal and fs = fs] assms(2,5,6) by simp
  have first: "Recv_n unmarshal (length evs)
        (with_unread ?s (concat (map wire_sse_event evs) @ event_text ?ls))
      = (map Inr items, with_unread ?s (event_text ?ls))"
    by (rule Recv_n_sse_events [OF fresh_stream_fields(1,2) assms(2) assms(1,3)])
  have final: "Recv unmarshal (with_unread ?s (event_text ?ls)) = (Inr item, with_unread ?s [])"
    by (rule Recv_last_event [OF fresh_stream_fields ls item])
  have last: "Recv unmarshal (with_unread ?s []) = (Inl EOF, with_unread ?s [])"
    by (rule Recv_end [OF fresh_stream_fields])
  have two: "Recv_n unmarshal 2 (with_unread ?s (event_text ?ls))
      = ([Inr item, Inl EOF], with_unread ?s [])"
    using final last by (simp add: numeral_2_eq_2)
  have "Recv_n unmarshal (length evs + 2)
        (with_unread ?s (concat (map wire_sse_event evs) @ event_text ?ls))
      = (map Inr items @ [Inr item, Inl EOF], with_unread ?s [])"
    unfolding Recv_n_add using first two by simp
  then show ?thesis
    by (simp only:
          fresh_stream_with_unread [of sc "concat (map wire_sse_event evs) @ event_text ?ls"]
          fst_conv)
qed

text \<open>
  C3. A body that ends right after the lines of a final event, with no blank line, is
  claimed to give that event's item on the call that meets the end of the body with a
  non-empty buffer. The body \<open>id: 1\<close>, newline, \<open>data: true\<close> ends after the last
  line of such an event, whose payload \<open>true\<close> decodes. \<open>ReadString\<close> returns the bytes
  after the last newline together with \<open>io.EOF\<close>, and \<open>readEvent\<close> does not add them
  to the buffer: the call parses \<open>id: 1\<close> alone and returns a StreamError for the empty
  data. In the same way the body \<open>data: true\<close>, blank line, \<open>data: false\<close> loses its
  final event: the second call returns \<open>io.EOF\<close>.
\<close>

theorem Recv_unterminated_final_line_lost:
  "unmarshal_bool (payload [IdField '' 1'', DataField '' true'']) = Inr True
   \<and> fst (Recv_n unmarshal_bool 2
       (fresh_stream 200 ''id: 1\<newline>data: true'' EOF None))
     = [Inl (StreamError ''failed to unmarshal event data''
               (Some (Opaque ''unexpected end of JSON input''))),
        Inl EOF]
   \<and> fst (Recv_n unmarshal_bool 2
       (fresh_stream 200 ''data: true\<newline>\<newline>data: false'' EOF None))
     = [Inr True, Inl EOF]"
  by code_simp

section \<open>Creating a stream from a response\<close>

text \<open>
  C8, as claimed: every response with a status from 200 to 299 gives a stream and no
  error. A response with the status 201 Created is in that range, and \<open>ReadStream\<close>
  returns an APIError for it.
\<close>

theorem ReadStream_201_counterexample:
  "200 \<le> Response.StatusCode \<lparr>Response.StatusCode = 201,
       Body = \<lparr>unread = ''data: true\<newline>\<newline>'', at_end = EOF, close_result = None,
                released = False\<rparr>\<rparr>
   \<and> Response.StatusCode \<lparr>Response.StatusCode = 201,
       Body = \<lparr>unread = ''data: true\<newline>\<newline>'', at_end = EOF, close_result = None,
                released = False\<rparr>\<rparr> < 300
   \<and> fst (ReadStream None \<lparr>Response.StatusCode = 201,
       Body = \<lparr>unread = ''data: true\<newline>\<newline>'', at_end = EOF, close_result = None,
                released = False\<rparr>\<rparr>)
     = Inl (API \<lparr>APIError.StatusCode = 201,
                  Message = ''unexpected status code: 201, body: data: true\<newline>\<newline>'',
                  Details = None, RequestID = []\<rparr>)"
  by (simp add: ReadStream_def ReadAll_def Body_Close_def show_int_def)

text \<open>
  C8, amended. \<open>ReadStream\<close> accepts the status 200 alone: for a response with status
  200 it returns the stream that \<open>New\<close> builds over it, with no error and the response
  untouched; for every other status, the other 2xx codes included, it reads the body
  to its end, closes it, and returns an APIError that carries the status of the
  response and names the status and the bytes read in its message.
\<close>

theorem ReadStream_only_200:
  "(Response.StatusCode resp = 200 \<longrightarrow>
      ReadStream parent resp = (Inr (New parent resp), resp))
   \<and> (Response.StatusCode resp \<noteq> 200 \<longrightarrow>
      ReadStream parent resp
        = (Inl (API \<lparr>APIError.StatusCode = Response.StatusCode resp,
                      Message = ''unexpected status code: ''
                                @ show_int (Response.StatusCode resp)
                                @ '', body: '' @ unread (Body resp),
                      Details = None, RequestID = []\<rparr>),
           resp\<lparr>Body := (Body resp)\<lparr>unread := [], released := True\<rparr>\<rparr>)
      \<and> (\<exists>e. fst (ReadStream parent resp) = Inl (API e)
             \<and> APIError_HTTPStatusCode e = Response.StatusCode resp)
      \<and> unread (Body (snd (ReadStream parent resp))) = []
      \<and> released (Body (snd (ReadStream parent resp))))"
  by (auto simp: ReadStream_def ReadAll_def Body_Close_def APIError_HTTPStatusCode_def Let_def)

theorem ReadStream_only_200_witness:
  "ReadStream None \<lparr>Response.StatusCode = 200, Body = whole_body ''data: true\<newline>\<newline>''\<rparr>
     = (Inr (New None \<lparr>Response.StatusCode = 200, Body = whole_body ''data: true\<newline>\<newline>''\<rparr>),
        \<lparr>Response.StatusCode = 200, Body = whole_body ''data: true\<newline>\<newline>''\<rparr>)
   \<and> ReadStream None \<lparr>Response.StatusCode = 204, Body = whole_body ''gone''\<rparr>
     = (Inl (API \<lparr>APIError.StatusCode = 204,
                   Message = ''unexpected status code: 204, body: gone'',
                   Details = None, RequestID = []\<rparr>),
        \<lparr>Response.StatusCode = 204,
          Body = \<lparr>unread = [], at_end = EOF, close_result = None, released = True\<rparr>\<rparr>)
   \<and> unread (Body (snd (ReadStream None
         \<lparr>Response.StatusCode = 204, Body = whole_body ''gone''\<rparr>))) = []
   \<and> released (Body (snd (ReadStream None
         \<lparr>Response.StatusCode = 204, Body = whole_body ''gone''\<rparr>)))"
  using
    ReadStream_only_200
      [of "\<lparr>Response.StatusCode = 200, Body = whole_body ''data: true\<newline>\<newline>''\<rparr>" None]
    ReadStream_only_200 [of "\<lparr>Response.StatusCode = 204, Body = whole_body ''gone''\<rparr>" None]
  by (simp add: whole_body_def show_int_def)

section \<open>Responses in the REST client\<close>

text \<open>Every error that \<open>parseErrorResponse\<close> builds carries the status of the response.\<close>

lemma parseErrorResponse_is_API:
  "\<exists>e. fst (parseErrorResponse StatusText unmarshal resp) = API e
       \<and> APIError_HTTPStatusCode e = Response.StatusCode resp"
  by (auto simp: parseErrorResponse_def ReadAll_def APIError_HTTPStatusCode_def Let_def
           split: sum.splits)

text \<open>
  C6. For a response outside the 2xx range \<open>parseErrorResponse\<close>, and \<open>handleResponse\<close>
  through it, return an APIError whose \<open>HTTPStatusCode()\<close> is the status of the
  response. When the body is read to its end and decodes as JSON into the APIError
  \<open>apiError\<close>, the error returned is \<open>apiError\<close> with its status code replaced by the
  status of the response: whatever status the body names is overwritten, and the
  decoded message is kept.
\<close>

theorem parseErrorResponse_overwrites_status:
  assumes "Response.StatusCode resp < 200 \<or> 300 \<le> Response.StatusCode resp"
  shows "(\<exists>e. fst (parseErrorResponse StatusText unmarshal resp) = API e
            \<and> fst (fst (handleResponse StatusText unmarshal Unmarshal resp result)) = Some (API e)
            \<and> APIError_HTTPStatusCode e = Response.StatusCode resp)
    \<and> (at_end (Body resp) = EOF \<and> unread (Body resp) \<noteq> []
         \<and> unmarshal (unread (Body resp)) = Inr apiError \<longrightarrow>
           fst (parseErrorResponse StatusText unmarshal resp)
             = API (apiError\<lparr>APIError.StatusCode := Response.StatusCode resp\<rparr>)
           \<and> Message (apiError\<lparr>APIError.StatusCode := Response.StatusCode resp\<rparr>)
             = Message apiError)"
proof -
  obtain e where e: "fst (parseErrorResponse StatusText unmarshal resp) = API e"
    and sc: "APIError_HTTPStatusCode e = Response.StatusCode resp"
    using parseErrorResponse_is_API by blast
  have "fst (fst (handleResponse StatusText unmarshal Unmarshal resp result)) = Some (API e)"
    using assms e by (auto simp: handleResponse_def split: prod.splits)
  moreover have "at_end (Body resp) = EOF \<and> unread (Body resp) \<noteq> []
         \<and> unmarshal (unread (Body resp)) = Inr apiError \<longrightarrow>
           fst (parseErrorResponse StatusText unmarshal resp)
             = API (apiError\<lparr>APIError.StatusCode := Response.StatusCode resp\<rparr>)"
    by (simp add: parseErrorResponse_def ReadAll_def Let_def)
  ultimately show ?thesis
    using e sc by simp
qed

theorem parseErrorResponse_overwrites_status_witness:
  "fst (parseErrorResponse StatusText_sample unmarshal_APIError_sample
      \<lparr>Response.StatusCode = 404,
        Body = whole_body ''{\"status_code\":200,\"message\":\"gone\"}''\<rparr>)
     = API \<lparr>APIError.StatusCode = 404, Message = ''gone'', Details = None, RequestID = []\<rparr>
   \<and> APIError_HTTPStatusCode
       \<lparr>APIError.StatusCode = 404, Message = ''gone'', Details = None, RequestID = []\<rparr> = 404
   \<and> fst (fst (handleResponse StatusText_sample unmarshal_APIError_sample Unmarshal_bool
      \<lparr>Response.StatusCode = 404,
        Body = whole_body ''{\"status_code\":200,\"message\":\"gone\"}''\<rparr> (Some False)))
     = Some (API \<lparr>APIError.StatusCode = 404, Message = ''gone'', Details = None,
                   RequestID = []\<rparr>)"
  using parseErrorResponse_overwrites_status
    [of "\<lparr>Response.StatusCode = 404,
          Body = whole_body ''{\"status_code\":200,\"message\":\"gone\"}''\<rparr>"
        StatusText_sample unmarshal_APIError_sample Unmarshal_bool "Some False"
        "\<lparr>APIError.StatusCode = 200, Message = ''gone'', Details = None, RequestID = []\<rparr>"]
  by (auto simp: unmarshal_APIError_sample_def whole_body_def APIError_HTTPStatusCode_def)

text \<open>
  C9, as claimed: for a 2xx response other than 204 and a non-nil output target the
  body is decoded into the target and a decode failure is returned as a RequestError.
  With status 200 and an empty body \<open>handleResponse\<close> returns nil and leaves the target
  as it was, although the decoder rejects the empty input.
\<close>

theorem handleResponse_empty_body_counterexample:
  "fst (handleResponse StatusText_sample unmarshal_APIError_sample Unmarshal_bool
      \<lparr>Response.StatusCode = 200, Body = whole_body []\<rparr> (Some True)) = (None, Some True)
   \<and> Unmarshal_bool [] True = (Some (Opaque ''unexpected end of JSON input''), True)"
  by (simp add: handleResponse_def ReadAll_def Unmarshal_bool_def whole_body_def)

text \<open>
  C9, amended. For a 2xx response: with a nil output target or the status 204
  \<open>handleResponse\<close> returns nil and touches neither the target nor the response. With a
  target and another status it reads the whole body; a read failure is returned as a
  RequestError wrapping it; an empty body returns nil without decoding; a non-empty
  body is decoded into the target, and a decode failure is returned as a RequestError
  wrapping the decoder's error.
\<close>

theorem handleResponse_success:
  assumes "200 \<le> Response.StatusCode resp" and "Response.StatusCode resp < 300"
  shows "(result = None \<or> Response.StatusCode resp = 204 \<longrightarrow>
            handleResponse StatusText unmarshal Unmarshal resp result = ((None, result), resp))
    \<and> (result = Some target \<and> Response.StatusCode resp \<noteq> 204 \<longrightarrow>
         (at_end (Body resp) \<noteq> EOF \<longrightarrow>
            fst (handleResponse StatusText unmarshal Unmarshal resp result)
              = (Some (RequestError ''failed to read response body'' (Response.StatusCode resp)
                         (Some (at_end (Body resp)))), result))
       \<and> (at_end (Body resp) = EOF \<and> unread (Body resp) = [] \<longrightarrow>
            fst (handleResponse StatusText unmarshal Unmarshal resp result) = (None, result))
       \<and> (at_end (Body resp) = EOF \<and> unread (Body resp) \<noteq> [] \<longrightarrow>
            fst (handleResponse StatusText unmarshal Unmarshal resp result)
              = (case Unmarshal (unread (Body resp)) target of
                   (Some e, target') \<Rightarrow>
                     (Some (RequestError ''failed to unmarshal response body''
                              (Response.StatusCode resp) (Some e)), Some target')
                 | (None, target') \<Rightarrow> (None, Some target'))))"
  using assms
  by (auto simp: handleResponse_def ReadAll_def Let_def split: option.splits prod.splits)

theorem handleResponse_success_witness:
  "handleResponse StatusText_sample unmarshal_APIError_sample Unmarshal_bool
      \<lparr>Response.StatusCode = 200, Body = whole_body ''true''\<rparr> None
     = ((None, None), \<lparr>Response.StatusCode = 200, Body = whole_body ''true''\<rparr>)
   \<and> handleResponse StatusText_sample unmarshal_APIError_sample Unmarshal_bool
      \<lparr>Response.StatusCode = 204, Body = whole_body ''true''\<rparr> (Some False)
     = ((None, Some False), \<lparr>Response.StatusCode = 204, Body = whole_body ''true''\<rparr>)
   \<and> fst (handleResponse StatusText_sample unmarshal_APIError_sample Unmarshal_bool
      \<lparr>Response.StatusCode = 200, Body = whole_body []\<rparr> (Some True)) = (None, Some True)
   \<and> fst (handleResponse StatusText_sample unmarshal_APIError_sample Unmarshal_bool
      \<lparr>Response.StatusCode = 200, Body = whole_body ''true''\<rparr> (Some False)) = (None, Some True)
   \<and> fst (handleResponse StatusText_sample unmarshal_APIError_sample Unmarshal_bool
      \<lparr>Response.StatusCode = 201, Body = whole_body ''tru''\<rparr> (Some False))
     = (Some (RequestError ''failed to unmarshal response body'' 201
          (Some (Opaque ''json: cannot unmarshal into Go value of type bool''))), Some False)
   \<and> fst (handleResponse StatusText_sample unmarshal_APIError_sample Unmarshal_bool
      \<lparr>Response.StatusCode = 200,
        Body = \<lparr>unread = ''tr'', at_end = Opaque ''unexpected EOF'', close_result = None,
                 released = False\<rparr>\<rparr> (Some False))
     = (Some (RequestError ''failed to read response body'' 200
          (Some (Opaque ''unexpected EOF''))), Some False)"
proof -
  note w = handleResponse_success [where StatusText = StatusText_sample
      and unmarshal = unmarshal_APIError_sample and Unmarshal = Unmarshal_bool]
  have 1: "handleResponse StatusText_sample unmarshal_APIError_sample Unmarshal_bool
      \<lparr>Response.StatusCode = 200, Body = whole_body ''true''\<rparr> None
     = ((None, None), \<lparr>Response.StatusCode = 200, Body = whole_body ''true''\<rparr>)"
    using w [of "\<lparr>Response.StatusCode = 200, Body = whole_body ''true''\<rparr>" None] by simp
  have 2: "handleResponse StatusText_sample unmarshal_APIError_sample Unmarshal_bool
      \<lparr>Response.StatusCode = 204, Body = whole_body ''true''\<rparr> (Some False)
     = ((None, Some False), \<lparr>Response.StatusCode = 204, Body = whole_body ''true''\<rparr>)"
    using w [of "\<lparr>Response.StatusCode = 204, Body = whole_body ''true''\<rparr>" "Some False"]
    by simp
  have 3: "fst (handleResponse StatusText_sample unmarshal_APIError_sample Unmarshal_bool
      \<lparr>Response.StatusCode = 200, Body = whole_body []\<rparr> (Some True)) = (None, Some True)"
    using w [of "\<lparr>Response.StatusCode = 200, Body = whole_body []\<rparr>" "Some True" True]
    by (simp add: whole_body_def)
  have 4: "fst (handleResponse StatusText_sample unmarshal_APIError_sample Unmarshal_bool
      \<lparr>Response.StatusCode = 200, Body = whole_body ''true''\<rparr> (Some False)) = (None, Some True)"
    using w [of "\<lparr>Response.StatusCode = 200, Body = whole_body ''true''\<rparr>" "Some False" False]
    by (simp add: whole_body_def Unmarshal_bool_def json_space_def)
  have 5: "fst (handleResponse StatusText_sample unmarshal_APIError_sample Unmarshal_bool
      \<lparr>Response.StatusCode = 201, Body = whole_body ''tru''\<rparr> (Some False))
     = (Some (RequestError ''failed to unmarshal response body'' 201
          (Some (Opaque ''json: cannot unmarshal into Go value of type bool''))), Some False)"
    using w [of "\<lparr>Response.StatusCode = 201, Body = whole_body ''tru''\<rparr>" "Some False" False]
    by (simp add: whole_body_def Unmarshal_bool_def json_space_def)
  have 6: "fst (handleResponse StatusText_sample unmarshal_APIError_sample Unmarshal_bool
      \<lparr>Response.StatusCode = 200,
        Body = \<lparr>unread = ''tr'', at_end = Opaque ''unexpected EOF'', close_result = None,
                 released = False\<rparr>\<rparr> (Some False))
     = (Some (RequestError ''failed to read response body'' 200
          (Some (Opaque ''unexpected EOF''))), Some False)"
    using w [of "\<lparr>Response.StatusCode = 200,
        Body = \<lparr>unread = ''tr'', at_end = Opaque ''unexpected EOF'', close_result = None,
                 released = False\<rparr>\<rparr>" "Some False" False]
    by simp
  from 1 2 3 4 5 6 show ?thesis by simp
qed

end
